theory Spec2Isabelle
  imports Main "HOL-Library.AList"
begin

section \<open>Python values, exceptions and outcomes\<close>

text \<open>
  The values that the attributes of \<^verbatim>\<open>locust/user/users.py\<close> hold. \<open>PyFun\<close> stands for
  a function, method or descriptor bound under the given name; \<open>PyGreenlet\<close> is the handle
  returned by \<^verbatim>\<open>gevent_group.spawn\<close>; \<open>PyEnvironment rs rf\<close> is an environment whose
  \<^verbatim>\<open>events.request_success\<close> and \<^verbatim>\<open>events.request_failure\<close> are \<open>rs\<close> and \<open>rf\<close>;
  \<open>PyHttpSession base_url rs rf trust_env\<close> is an HTTP session object.
\<close>

datatype pyval =
    PyNone
  | PyBool bool
  | PyInt int
  | PyStr string
  | PyList "pyval list"
  | PyFun string
  | PyGreenlet nat
  | PyDefaultTaskSet
  | PyNoClientWarningRaiser
  | PyEnvironment pyval pyval
  | PyHttpSession pyval pyval pyval bool

datatype py_exception =
    GreenletExit
  | StopUser
  | LocustError string
  | AttributeError string
  | OtherException string

text \<open>A call returns a value, raises, or never comes back (the task loop is \<^verbatim>\<open>while True\<close>).\<close>

datatype 'a outcome = Returned 'a | Raised py_exception | Hangs

text \<open>The calls that leave this module, in the order in which they are made.\<close>

datatype event =
    Call_get_tasks_from_base_classes
  | Call_check_for_deprecated_task_set_attribute
  | Call_DefaultTaskSet
  | Call_on_start
  | Call_taskset_run
  | Call_on_stop
  | Call_taskset_wait
  | Call_spawn
  | Call_killone pyval
  | Call_HttpSession pyval

text \<open>Python truthiness, as \<^verbatim>\<open>not x\<close> and \<^verbatim>\<open>if x\<close> test it.\<close>

fun truthy :: "pyval \<Rightarrow> bool" where
  "truthy PyNone = False"
| "truthy (PyBool b) = b"
| "truthy (PyInt i) = (i \<noteq> 0)"
| "truthy (PyStr s) = (s \<noteq> [])"
| "truthy (PyList xs) = (xs \<noteq> [])"
| "truthy v = True"

section \<open>Classes, instances and attribute lookup\<close>

text \<open>
  A class is its name, its bases and its namespace (an insertion-ordered dictionary, as
  \<^verbatim>\<open>class_dict\<close> is). An instance is its class and its own attribute dictionary.
\<close>

datatype pyclass = PyClass string "pyclass list" "(string \<times> pyval) list"

fun class_name :: "pyclass \<Rightarrow> string" where
  "class_name (PyClass n bs d) = n"

fun class_bases :: "pyclass \<Rightarrow> pyclass list" where
  "class_bases (PyClass n bs d) = bs"

fun class_namespace :: "pyclass \<Rightarrow> (string \<times> pyval) list" where
  "class_namespace (PyClass n bs d) = d"

text \<open>\<^verbatim>\<open>d.get(k)\<close> on a dictionary: \<^verbatim>\<open>None\<close> when the key is absent.\<close>

definition dict_get :: "(string \<times> pyval) list \<Rightarrow> string \<Rightarrow> pyval" where
  "dict_get d k = (case map_of d k of Some v \<Rightarrow> v | None \<Rightarrow> PyNone)"

record pyobject =
  ob_type :: pyclass
  ob_dict :: "string \<Rightarrow> pyval option"

text \<open>
  Lookup of a name on a class: the class's own namespace first, then its bases from left
  to right (for single inheritance, as everywhere in this module, this is the method
  resolution order).
\<close>

fun class_lookup :: "pyclass \<Rightarrow> string \<Rightarrow> pyval option"
  and bases_lookup :: "pyclass list \<Rightarrow> string \<Rightarrow> pyval option" where
  "class_lookup (PyClass n bs d) a =
     (case map_of d a of Some v \<Rightarrow> Some v | None \<Rightarrow> bases_lookup bs a)"
| "bases_lookup [] a = None"
| "bases_lookup (b # bs) a =
     (case class_lookup b a of Some v \<Rightarrow> Some v | None \<Rightarrow> bases_lookup bs a)"

text \<open>\<^verbatim>\<open>self.name\<close>: the instance dictionary, then the class; \<^verbatim>\<open>self.name = v\<close>.\<close>

definition getattr :: "pyobject \<Rightarrow> string \<Rightarrow> pyval outcome" where
  "getattr self a =
     (case ob_dict self a of
        Some v \<Rightarrow> Returned v
      | None \<Rightarrow> (case class_lookup (ob_type self) a of
                   Some v \<Rightarrow> Returned v
                 | None \<Rightarrow> Raised (AttributeError a)))"

definition setattr :: "pyobject \<Rightarrow> string \<Rightarrow> pyval \<Rightarrow> pyobject" where
  "setattr self a v = self\<lparr>ob_dict := (ob_dict self)(a \<mapsto> v)\<rparr>"

text \<open>A new instance of a class, before any constructor has run.\<close>

definition new_object :: "pyclass \<Rightarrow> pyobject" where
  "new_object c = \<lparr>ob_type = c, ob_dict = Map.empty\<rparr>"

section \<open>The state constants\<close>

text \<open>
  Modelled from the spec: the three constants imported from \<^verbatim>\<open>locust/user/task.py\<close>
  (not among the sources). The spec names the states \<^verbatim>\<open>running\<close>, \<^verbatim>\<open>waiting\<close> and
  \<^verbatim>\<open>stopping\<close>; \<^verbatim>\<open>unstarted\<close> is the class default \<^verbatim>\<open>_state = None\<close>.
\<close>

definition LOCUST_STATE_RUNNING :: pyval where
  "LOCUST_STATE_RUNNING = PyStr ''running''"

definition LOCUST_STATE_WAITING :: pyval where
  "LOCUST_STATE_WAITING = PyStr ''waiting''"

definition LOCUST_STATE_STOPPING :: pyval where
  "LOCUST_STATE_STOPPING = PyStr ''stopping''"

section \<open>User.start and User.stop\<close>

text \<open>
  \<^verbatim>\<open>start\<close>: the group spawns a greenlet and hands back its handle \<open>g\<close>, which is stored
  in \<^verbatim>\<open>_greenlet\<close> and returned.
\<close>

definition start :: "pyval \<Rightarrow> pyobject \<Rightarrow> pyval outcome \<times> pyobject \<times> event list" where
  "start g self = (Returned g, setattr self ''_greenlet'' g, [Call_spawn])"

text \<open>
  \<^verbatim>\<open>stop(self, gevent_group, force=False)\<close>. The first test is
  \<^verbatim>\<open>force or self._state == LOCUST_STATE_WAITING\<close> (the state is not read when \<open>force\<close>
  holds); the \<^verbatim>\<open>elif\<close> reads the state again; when neither branch is taken the
  function falls off its end and returns \<^verbatim>\<open>None\<close>.
\<close>

definition stop :: "pyobject \<Rightarrow> bool \<Rightarrow> pyval outcome \<times> pyobject \<times> event list" where
  "stop self force =
     (case (if force then Returned True
            else (case getattr self ''_state'' of
                    Returned st \<Rightarrow> Returned (st = LOCUST_STATE_WAITING)
                  | Raised e \<Rightarrow> Raised e
                  | Hangs \<Rightarrow> Hangs)) of
        Returned True \<Rightarrow>
          (case getattr self ''_greenlet'' of
             Returned g \<Rightarrow> (Returned (PyBool True), self, [Call_killone g])
           | Raised e \<Rightarrow> (Raised e, self, [])
           | Hangs \<Rightarrow> (Hangs, self, []))
      | Returned False \<Rightarrow>
          (case getattr self ''_state'' of
             Returned st \<Rightarrow>
               if st = LOCUST_STATE_RUNNING
               then (Returned (PyBool False), setattr self ''_state'' LOCUST_STATE_STOPPING, [])
               else (Returned PyNone, self, [])
           | Raised e \<Rightarrow> (Raised e, self, [])
           | Hangs \<Rightarrow> (Hangs, self, []))
      | Raised e \<Rightarrow> (Raised e, self, [])
      | Hangs \<Rightarrow> (Hangs, self, []))"

section \<open>User.run and User.wait\<close>

text \<open>
  The methods that a user class overrides, and the two methods of the task set that
  \<^verbatim>\<open>run\<close> and \<^verbatim>\<open>wait\<close> delegate to (\<^verbatim>\<open>locust/user/task.py\<close> is not among the
  sources): each is given by what it does to the user object and how it ends.
\<close>

record hooks =
  on_start :: "pyobject \<Rightarrow> unit outcome \<times> pyobject"
  on_stop :: "pyobject \<Rightarrow> unit outcome \<times> pyobject"
  taskset_run :: "pyobject \<Rightarrow> unit outcome \<times> pyobject"
  taskset_wait :: "pyobject \<Rightarrow> unit outcome \<times> pyobject"

text \<open>\<^verbatim>\<open>on_start\<close> and \<^verbatim>\<open>on_stop\<close> as \<^verbatim>\<open>User\<close> defines them: \<^verbatim>\<open>pass\<close>.\<close>

definition pass :: "pyobject \<Rightarrow> unit outcome \<times> pyobject" where
  "pass self = (Returned (), self)"

text \<open>
  \<^verbatim>\<open>self._taskset_instance.m()\<close>: the attribute is read from the user; a task set runs
  its method \<open>m\<close>; on any other value of this model (\<^verbatim>\<open>None\<close> before \<^verbatim>\<open>run\<close>) the
  method lookup raises \<^verbatim>\<open>AttributeError\<close>.
\<close>

definition taskset_call ::
  "(pyobject \<Rightarrow> unit outcome \<times> pyobject) \<Rightarrow> string \<Rightarrow> event \<Rightarrow> pyobject
     \<Rightarrow> unit outcome \<times> pyobject \<times> event list" where
  "taskset_call m name ev self =
     (case getattr self ''_taskset_instance'' of
        Returned ts \<Rightarrow>
          if ts = PyDefaultTaskSet
          then (case m self of (r, self') \<Rightarrow> (r, self', [ev]))
          else (Raised (AttributeError name), self, [])
      | Raised e \<Rightarrow> (Raised e, self, [])
      | Hangs \<Rightarrow> (Hangs, self, []))"

text \<open>
  The first two statements of \<^verbatim>\<open>run\<close>, before its \<^verbatim>\<open>try\<close>.
  Modelled from the spec: the constructor \<^verbatim>\<open>DefaultTaskSet(self)\<close>
  (\<^verbatim>\<open>locust/user/task.py\<close>, not among the sources) returns the task set whose loop
  the user runs.
\<close>

definition run_entry :: "pyobject \<Rightarrow> pyobject" where
  "run_entry self =
     setattr (setattr self ''_state'' LOCUST_STATE_RUNNING) ''_taskset_instance'' PyDefaultTaskSet"

text \<open>The body of the \<^verbatim>\<open>try\<close>: \<^verbatim>\<open>self.on_start()\<close>, then \<^verbatim>\<open>self._taskset_instance.run()\<close>.\<close>

definition run_body :: "hooks \<Rightarrow> pyobject \<Rightarrow> unit outcome \<times> pyobject \<times> event list" where
  "run_body hk self =
     (case on_start hk self of
        (Returned u, self1) \<Rightarrow>
          (case taskset_call (taskset_run hk) ''run'' Call_taskset_run self1 of
             (r, self2, evs) \<Rightarrow> (r, self2, Call_on_start # evs))
      | (Raised e, self1) \<Rightarrow> (Raised e, self1, [Call_on_start])
      | (Hangs, self1) \<Rightarrow> (Hangs, self1, [Call_on_start]))"

text \<open>
  \<^verbatim>\<open>run\<close>: the handler \<^verbatim>\<open>except (GreenletExit, StopUser)\<close> calls \<^verbatim>\<open>self.on_stop()\<close>,
  and whatever \<^verbatim>\<open>on_stop\<close> does is what \<^verbatim>\<open>run\<close> does; any other exception leaves
  \<^verbatim>\<open>run\<close> as it is.
\<close>

definition run :: "hooks \<Rightarrow> pyobject \<Rightarrow> unit outcome \<times> pyobject \<times> event list" where
  "run hk self =
     (case run_body hk (run_entry self) of
        (r, self3, evs) \<Rightarrow>
          (case r of
             Raised e \<Rightarrow>
               if e = GreenletExit \<or> e = StopUser
               then (case on_stop hk self3 of
                       (r', self4) \<Rightarrow> (r', self4, Call_DefaultTaskSet # evs @ [Call_on_stop]))
               else (Raised e, self3, Call_DefaultTaskSet # evs)
           | Returned u \<Rightarrow> (Returned u, self3, Call_DefaultTaskSet # evs)
           | Hangs \<Rightarrow> (Hangs, self3, Call_DefaultTaskSet # evs)))"

definition wait :: "hooks \<Rightarrow> pyobject \<Rightarrow> unit outcome \<times> pyobject \<times> event list" where
  "wait hk self = taskset_call (taskset_wait hk) ''wait'' Call_taskset_wait self"

text \<open>
  An exception \<open>e\<close> comes out of the setup hook, or out of the task loop after the setup
  hook has returned; \<open>s\<close> is the user object at that moment and \<open>evs\<close> the calls made
  inside the \<^verbatim>\<open>try\<close>.
\<close>

definition raised_by_setup_or_loop ::
  "hooks \<Rightarrow> pyobject \<Rightarrow> py_exception \<Rightarrow> pyobject \<Rightarrow> event list \<Rightarrow> bool" where
  "raised_by_setup_or_loop hk self e s evs \<longleftrightarrow>
     (on_start hk (run_entry self) = (Raised e, s) \<and> evs = [Call_on_start])
   \<or> (fst (on_start hk (run_entry self)) = Returned ()
      \<and> getattr (snd (on_start hk (run_entry self))) ''_taskset_instance''
          = Returned PyDefaultTaskSet
      \<and> taskset_run hk (snd (on_start hk (run_entry self))) = (Raised e, s)
      \<and> evs = [Call_on_start, Call_taskset_run])"

section \<open>User.__init__ and HttpUser.__init__\<close>

definition User_init :: "pyobject \<Rightarrow> pyval \<Rightarrow> pyobject" where
  "User_init self environment = setattr self ''environment'' environment"

text \<open>
  Modelled from the spec: the constructor of \<^verbatim>\<open>HttpSession\<close>
  (\<^verbatim>\<open>locust/clients.py\<close> is not among the sources) receives a base target address and
  two callback hooks and yields the client; \<^verbatim>\<open>trust_env\<close> starts out true, as in the
  session class it extends.
\<close>

definition HttpSession :: "pyval \<Rightarrow> pyval \<Rightarrow> pyval \<Rightarrow> pyval" where
  "HttpSession base_url request_success request_failure =
     PyHttpSession base_url request_success request_failure True"

fun set_trust_env :: "pyval \<Rightarrow> bool \<Rightarrow> pyval" where
  "set_trust_env (PyHttpSession b rs rf t) t' = PyHttpSession b rs rf t'"
| "set_trust_env v t' = v"

definition no_host_message :: string where
  "no_host_message = ''You must specify the base host. Either in the host attribute in the User class, or on the command line using the --host option.''"

definition HttpUser_init :: "pyobject \<Rightarrow> pyval \<Rightarrow> unit outcome \<times> pyobject \<times> event list" where
  "HttpUser_init self environment =
     (let self1 = User_init self environment in
      case getattr self1 ''host'' of
        Returned host \<Rightarrow>
          if host = PyNone then (Raised (LocustError no_host_message), self1, [])
          else (case getattr self1 ''environment'' of
                  Returned env \<Rightarrow>
                    (case env of
                       PyEnvironment rs rf \<Rightarrow>
                         (let session = HttpSession host rs rf;
                              session' = set_trust_env session False
                          in (Returned (), setattr self1 ''client'' session',
                              [Call_HttpSession host]))
                     | _ \<Rightarrow> (Raised (AttributeError ''events''), self1, []))
                | Raised e \<Rightarrow> (Raised e, self1, [])
                | Hangs \<Rightarrow> (Hangs, self1, []))
      | Raised e \<Rightarrow> (Raised e, self1, [])
      | Hangs \<Rightarrow> (Hangs, self1, []))"

section \<open>NoClientWarningRaiser\<close>

text \<open>
  The root class of the examples: \<^verbatim>\<open>object\<close> with the names that Python 3.11 gives
  it. What \<^verbatim>\<open>object\<close> holds depends on the interpreter, so the functions and
  theorems on \<^verbatim>\<open>NoClientWarningRaiser\<close> below take the class \<^verbatim>\<open>object\<close> as a
  parameter; this one only instantiates them.
\<close>

definition object_class :: pyclass where
  "object_class = PyClass ''object'' []
     (map (\<lambda>n. (n, PyFun n))
        [''__class__'', ''__delattr__'', ''__dir__'', ''__doc__'', ''__eq__'', ''__format__'',
         ''__ge__'', ''__getattribute__'', ''__getstate__'', ''__gt__'', ''__hash__'', ''__init__'',
         ''__init_subclass__'', ''__le__'', ''__lt__'', ''__ne__'', ''__new__'', ''__reduce__'',
         ''__reduce_ex__'', ''__repr__'', ''__setattr__'', ''__sizeof__'', ''__str__'',
         ''__subclasshook__''])"

text \<open>The docstring of \<^verbatim>\<open>NoClientWarningRaiser\<close>, as lines 11 to 14 of the source hold it.\<close>

definition NoClientWarningRaiser_doc :: string where
  "NoClientWarningRaiser_doc =
     ''\<newline>    The purpose of this class is to emit a sensible error message for old test scripts that \<newline>    inherit from User, and expects there to be an HTTP client under the client attribute.\<newline>    ''"

text \<open>
  The class statement of \<^verbatim>\<open>NoClientWarningRaiser\<close>, over the class \<open>obj\<close> that
  \<^verbatim>\<open>object\<close> is: the docstring and the method \<^verbatim>\<open>__getattr__\<close>; Python adds
  \<^verbatim>\<open>__module__\<close>, \<^verbatim>\<open>__dict__\<close> and \<^verbatim>\<open>__weakref__\<close>.
\<close>

definition NoClientWarningRaiser_class :: "pyclass \<Rightarrow> pyclass" where
  "NoClientWarningRaiser_class obj = PyClass ''NoClientWarningRaiser'' [obj]
     [(''__module__'', PyStr ''locust.user.users''),
      (''__doc__'', PyStr NoClientWarningRaiser_doc),
      (''__getattr__'', PyFun ''NoClientWarningRaiser.__getattr__''),
      (''__dict__'', PyFun ''__dict__''),
      (''__weakref__'', PyFun ''__weakref__'')]"

definition no_client_message :: string where
  "no_client_message = ''No client instantiated. Did you intend to inherit from HttpUser?''"

text \<open>\<^verbatim>\<open>__getattr__(self, _)\<close>: raises, whatever the name.\<close>

definition NoClientWarningRaiser_getattr :: "string \<Rightarrow> pyval outcome" where
  "NoClientWarningRaiser_getattr name = Raised (LocustError no_client_message)"

text \<open>
  Attribute access on an instance of \<^verbatim>\<open>NoClientWarningRaiser\<close>. Python calls
  \<^verbatim>\<open>__getattr__\<close> only when normal lookup has not found the name; the instance has
  no attributes of its own, so normal lookup is lookup on the class.
\<close>

definition NoClientWarningRaiser_attribute :: "pyclass \<Rightarrow> string \<Rightarrow> pyval outcome" where
  "NoClientWarningRaiser_attribute obj name =
     (case class_lookup (NoClientWarningRaiser_class obj) name of
        Some v \<Rightarrow> Returned v
      | None \<Rightarrow> NoClientWarningRaiser_getattr name)"

text \<open>
  \<^verbatim>\<open>self.client.name\<close>. Attribute access on a client of another class belongs to that
  class and is the parameter \<open>other\<close>.
\<close>

definition client_attribute ::
  "pyclass \<Rightarrow> (pyval \<Rightarrow> string \<Rightarrow> pyval outcome) \<Rightarrow> pyobject \<Rightarrow> string
     \<Rightarrow> pyval outcome" where
  "client_attribute obj other self name =
     (case getattr self ''client'' of
        Returned c \<Rightarrow>
          if c = PyNoClientWarningRaiser then NoClientWarningRaiser_attribute obj name
          else other c name
      | Raised e \<Rightarrow> Raised e
      | Hangs \<Rightarrow> Hangs)"

section \<open>The metaclass\<close>

text \<open>
  \<^verbatim>\<open>UserMeta.__new__(mcs, classname, bases, class_dict)\<close>. The two functions it calls,
  \<^verbatim>\<open>get_tasks_from_base_classes\<close> (\<^verbatim>\<open>locust/user/task.py\<close>) and
  \<^verbatim>\<open>deprecation.check_for_deprecated_task_set_attribute\<close> (\<^verbatim>\<open>locust/util\<close>), are not
  among the sources and are parameters; they read \<^verbatim>\<open>class_dict\<close> and do not change it.
  \<^verbatim>\<open>type.__new__\<close> builds the class from the name, the bases and the namespace.
\<close>

definition UserMeta_new ::
  "(pyclass list \<Rightarrow> (string \<times> pyval) list \<Rightarrow> pyval outcome)
     \<Rightarrow> ((string \<times> pyval) list \<Rightarrow> unit outcome)
     \<Rightarrow> string \<Rightarrow> pyclass list \<Rightarrow> (string \<times> pyval) list
     \<Rightarrow> pyclass outcome \<times> event list" where
  "UserMeta_new get_tasks_from_base_classes check_for_deprecated_task_set_attribute
       classname bases class_dict =
     (case get_tasks_from_base_classes bases class_dict of
        Returned tasks \<Rightarrow>
          (let class_dict1 = AList.update ''tasks'' tasks class_dict;
               class_dict2 =
                 (if \<not> truthy (dict_get class_dict1 ''abstract'')
                  then AList.update ''abstract'' (PyBool False) class_dict1
                  else class_dict1)
           in case check_for_deprecated_task_set_attribute class_dict2 of
                Returned u \<Rightarrow>
                  (Returned (PyClass classname bases class_dict2),
                   [Call_get_tasks_from_base_classes,
                    Call_check_for_deprecated_task_set_attribute])
              | Raised e \<Rightarrow>
                  (Raised e,
                   [Call_get_tasks_from_base_classes,
                    Call_check_for_deprecated_task_set_attribute])
              | Hangs \<Rightarrow>
                  (Hangs,
                   [Call_get_tasks_from_base_classes,
                    Call_check_for_deprecated_task_set_attribute]))
      | Raised e \<Rightarrow> (Raised e, [Call_get_tasks_from_base_classes])
      | Hangs \<Rightarrow> (Hangs, [Call_get_tasks_from_base_classes]))"

section \<open>The classes of the module\<close>

text \<open>
  The namespace that the class statement of \<^verbatim>\<open>User\<close> hands to the metaclass, in the
  order of the source (the docstring is cut to its first sentence).
\<close>

definition User_body :: "(string \<times> pyval) list" where
  "User_body =
     [(''__module__'', PyStr ''locust.user.users''),
      (''__qualname__'', PyStr ''User''),
      (''__doc__'', PyStr ''Represents a user which is to be hatched and attack the system that is to be load tested.''),
      (''host'', PyNone),
      (''min_wait'', PyNone),
      (''max_wait'', PyNone),
      (''wait_time'', PyNone),
      (''wait_function'', PyNone),
      (''tasks'', PyList []),
      (''weight'', PyInt 10),
      (''abstract'', PyBool True),
      (''client'', PyNoClientWarningRaiser),
      (''_state'', PyNone),
      (''_greenlet'', PyNone),
      (''_taskset_instance'', PyNone),
      (''__init__'', PyFun ''User.__init__''),
      (''on_start'', PyFun ''User.on_start''),
      (''on_stop'', PyFun ''User.on_stop''),
      (''run'', PyFun ''User.run''),
      (''wait'', PyFun ''User.wait''),
      (''start'', PyFun ''User.start''),
      (''stop'', PyFun ''User.stop'')]"

definition HttpUser_body :: "(string \<times> pyval) list" where
  "HttpUser_body =
     [(''__module__'', PyStr ''locust.user.users''),
      (''__qualname__'', PyStr ''HttpUser''),
      (''__doc__'', PyStr ''Represents an HTTP user which is to be hatched and attack the system that is to be load tested.''),
      (''abstract'', PyBool True),
      (''client'', PyNone),
      (''__init__'', PyFun ''HttpUser.__init__'')]"

text \<open>
  Neither \<^verbatim>\<open>User\<close> nor \<^verbatim>\<open>HttpUser\<close> declares a task, so the resolver has nothing to
  collect for them, and the deprecation check finds no \<^verbatim>\<open>task_set\<close> attribute.
\<close>

definition no_tasks :: "pyclass list \<Rightarrow> (string \<times> pyval) list \<Rightarrow> pyval outcome" where
  "no_tasks bases class_dict = Returned (PyList [])"

definition no_warning :: "(string \<times> pyval) list \<Rightarrow> unit outcome" where
  "no_warning class_dict = Returned ()"

text \<open>The classes that the metaclass builds for the two class statements.\<close>

definition User_class :: pyclass where
  "User_class = PyClass ''User'' [object_class] User_body"

definition HttpUser_class :: pyclass where
  "HttpUser_class = PyClass ''HttpUser'' [User_class]
     (HttpUser_body @ [(''tasks'', PyList [])])"

text \<open>
  A test script's classes: \<^verbatim>\<open>class MyUser(User): pass\<close> and
  \<^verbatim>\<open>class MyHttpUser(HttpUser): host = "http://127.0.0.1"\<close>.
\<close>

definition MyUser_body :: "(string \<times> pyval) list" where
  "MyUser_body =
     [(''__module__'', PyStr ''locustfile''), (''__qualname__'', PyStr ''MyUser'')]"

definition MyUser_class :: pyclass where
  "MyUser_class = PyClass ''MyUser'' [User_class]
     (MyUser_body @ [(''tasks'', PyList []), (''abstract'', PyBool False)])"

definition MyHttpUser_class :: pyclass where
  "MyHttpUser_class = PyClass ''MyHttpUser'' [HttpUser_class]
     [(''__module__'', PyStr ''locustfile''), (''__qualname__'', PyStr ''MyHttpUser''),
      (''host'', PyStr ''http://127.0.0.1''),
      (''tasks'', PyList []), (''abstract'', PyBool False)]"

definition sample_environment :: pyval where
  "sample_environment = PyEnvironment (PyFun ''request_success'') (PyFun ''request_failure'')"

text \<open>A user of that script, constructed and not yet started.\<close>

definition sample_user :: pyobject where
  "sample_user = User_init (new_object MyUser_class) sample_environment"

section \<open>Sample hooks\<close>

text \<open>A setup hook that stops the user at once (\<^verbatim>\<open>raise StopUser()\<close>).\<close>

definition hooks_setup_stops :: hooks where
  "hooks_setup_stops =
     \<lparr>on_start = (\<lambda>s. (Raised StopUser, s)), on_stop = pass,
      taskset_run = (\<lambda>s. (Hangs, s)), taskset_wait = pass\<rparr>"

text \<open>A task loop that is killed by the group while the user sleeps between two tasks.\<close>

definition hooks_loop_killed :: hooks where
  "hooks_loop_killed =
     \<lparr>on_start = pass, on_stop = pass,
      taskset_run = (\<lambda>s. (Raised GreenletExit, setattr s ''_state'' LOCUST_STATE_WAITING)),
      taskset_wait = pass\<rparr>"

text \<open>
  A teardown hook that uses \<^verbatim>\<open>self.client\<close> on a user without a client, and so raises
  the error of \<^verbatim>\<open>NoClientWarningRaiser\<close>; the task loop ends with \<^verbatim>\<open>StopUser\<close>.
\<close>

definition hooks_teardown_fails :: hooks where
  "hooks_teardown_fails =
     \<lparr>on_start = pass,
      on_stop = (\<lambda>s. (Raised (LocustError no_client_message), s)),
      taskset_run = (\<lambda>s. (Raised StopUser, s)), taskset_wait = pass\<rparr>"

text \<open>A task that fails, and a setup hook that fails.\<close>

definition hooks_task_fails :: hooks where
  "hooks_task_fails =
     \<lparr>on_start = pass, on_stop = pass,
      taskset_run = (\<lambda>s. (Raised (OtherException ''ValueError''), s)), taskset_wait = pass\<rparr>"

definition hooks_setup_fails :: hooks where
  "hooks_setup_fails =
     \<lparr>on_start = (\<lambda>s. (Raised (OtherException ''KeyError''), s)), on_stop = pass,
      taskset_run = (\<lambda>s. (Hangs, s)), taskset_wait = pass\<rparr>"

text \<open>
  A method that leaves the user an instance of its class and does not touch the
  \<^verbatim>\<open>tasks\<close> entry of the instance dictionary.
\<close>

definition keeps_tasks :: "(pyobject \<Rightarrow> unit outcome \<times> pyobject) \<Rightarrow> bool" where
  "keeps_tasks m \<longleftrightarrow>
     (\<forall>s. ob_type (snd (m s)) = ob_type s
        \<and> ob_dict (snd (m s)) ''tasks'' = ob_dict s ''tasks'')"

text \<open>
  The states that an instance of the class \<open>c\<close> goes through: it is constructed, by
  either constructor, and then started, stopped, run and made to wait, any number of
  times and in any order.
\<close>

inductive lives :: "hooks \<Rightarrow> pyclass \<Rightarrow> pyobject \<Rightarrow> bool" for hk :: hooks and c :: pyclass where
  constructed: "lives hk c (User_init (new_object c) env)"
| http_constructed: "lives hk c (fst (snd (HttpUser_init (new_object c) env)))"
| started: "lives hk c s \<Longrightarrow> lives hk c (fst (snd (start g s)))"
| stopped: "lives hk c s \<Longrightarrow> lives hk c (fst (snd (stop s force)))"
| waited: "lives hk c s \<Longrightarrow> lives hk c (fst (snd (wait hk s)))"
| ran: "lives hk c s \<Longrightarrow> lives hk c (fst (snd (run hk s)))"

text \<open>
  A test script's class with tasks, \<^verbatim>\<open>class TaskUser(User): tasks = [index, about]\<close>,
  and what the resolver returns for it: the two declared tasks (\<^verbatim>\<open>User\<close> has none).
\<close>

definition TaskUser_body :: "(string \<times> pyval) list" where
  "TaskUser_body =
     [(''__module__'', PyStr ''locustfile''), (''__qualname__'', PyStr ''TaskUser''),
      (''tasks'', PyList [PyFun ''index'', PyFun ''about''])]"

definition two_tasks :: "pyclass list \<Rightarrow> (string \<times> pyval) list \<Rightarrow> pyval outcome" where
  "two_tasks bases class_dict = Returned (PyList [PyFun ''index'', PyFun ''about''])"

definition TaskUser_class :: pyclass where
  "TaskUser_class = PyClass ''TaskUser'' [User_class]
     (TaskUser_body @ [(''abstract'', PyBool False)])"

text \<open>Attribute access on a client of another class, for a model without such clients.\<close>

definition no_other_client :: "pyval \<Rightarrow> string \<Rightarrow> pyval outcome" where
  "no_other_client c name = Raised (AttributeError name)"

section \<open>Stopping a user\<close>

lemma state_constants_distinct:
  "LOCUST_STATE_RUNNING \<noteq> LOCUST_STATE_WAITING"
  "LOCUST_STATE_RUNNING \<noteq> LOCUST_STATE_STOPPING"
  "LOCUST_STATE_WAITING \<noteq> LOCUST_STATE_STOPPING"
  "LOCUST_STATE_RUNNING \<noteq> PyNone"
  "LOCUST_STATE_WAITING \<noteq> PyNone"
  "LOCUST_STATE_STOPPING \<noteq> PyNone"
  "LOCUST_STATE_WAITING \<noteq> LOCUST_STATE_RUNNING"
  "LOCUST_STATE_STOPPING \<noteq> LOCUST_STATE_RUNNING"
  "LOCUST_STATE_STOPPING \<noteq> LOCUST_STATE_WAITING"
  "PyNone \<noteq> LOCUST_STATE_RUNNING"
  "PyNone \<noteq> LOCUST_STATE_WAITING"
  "PyNone \<noteq> LOCUST_STATE_STOPPING"
  by (simp_all add: LOCUST_STATE_RUNNING_def LOCUST_STATE_WAITING_def LOCUST_STATE_STOPPING_def)

lemma getattr_setattr_same: "getattr (setattr self a v) a = Returned v"
  by (simp add: getattr_def setattr_def)

lemma getattr_setattr_other: "a \<noteq> b \<Longrightarrow> getattr (setattr self a v) b = getattr self b"
  by (simp add: getattr_def setattr_def split: option.splits)

lemma getattr_sample_user:
  "getattr sample_user ''_state'' = Returned PyNone"
  "getattr sample_user ''_greenlet'' = Returned PyNone"
  "getattr sample_user ''_taskset_instance'' = Returned PyNone"
  by (simp_all add: getattr_def sample_user_def new_object_def User_init_def setattr_def
      MyUser_class_def MyUser_body_def User_class_def User_body_def)

text \<open>
  C1. For a started user (its \<^verbatim>\<open>_greenlet\<close> holds the handle \<open>g\<close>), \<^verbatim>\<open>stop\<close> with
  \<open>force\<close> true, or with \<open>force\<close> false while the state is waiting, calls
  \<^verbatim>\<open>killone\<close> on that handle, exactly once, and returns \<^verbatim>\<open>True\<close>; the user object
  is left as it was.
\<close>

theorem stop_kills_immediately:
  assumes "getattr self ''_greenlet'' = Returned g"
    and "force \<or> getattr self ''_state'' = Returned LOCUST_STATE_WAITING"
  shows "stop self force = (Returned (PyBool True), self, [Call_killone g])"
  using assms by (auto simp: stop_def)

theorem stop_kills_immediately_witness:
  "stop (setattr sample_user ''_greenlet'' (PyGreenlet 1)) True
     = (Returned (PyBool True), setattr sample_user ''_greenlet'' (PyGreenlet 1),
        [Call_killone (PyGreenlet 1)])
   \<and> stop (setattr (setattr sample_user ''_greenlet'' (PyGreenlet 1)) ''_state''
             LOCUST_STATE_WAITING) False
     = (Returned (PyBool True),
        setattr (setattr sample_user ''_greenlet'' (PyGreenlet 1)) ''_state''
          LOCUST_STATE_WAITING,
        [Call_killone (PyGreenlet 1)])"
proof
  show "stop (setattr sample_user ''_greenlet'' (PyGreenlet 1)) True
     = (Returned (PyBool True), setattr sample_user ''_greenlet'' (PyGreenlet 1),
        [Call_killone (PyGreenlet 1)])"
    by (rule stop_kills_immediately) (simp_all add: getattr_setattr_same)
next
  show "stop (setattr (setattr sample_user ''_greenlet'' (PyGreenlet 1)) ''_state''
             LOCUST_STATE_WAITING) False
     = (Returned (PyBool True),
        setattr (setattr sample_user ''_greenlet'' (PyGreenlet 1)) ''_state''
          LOCUST_STATE_WAITING,
        [Call_killone (PyGreenlet 1)])"
    by (rule stop_kills_immediately)
      (simp_all add: getattr_setattr_same getattr_setattr_other)
qed

text \<open>
  C2. For a user whose state is running, \<^verbatim>\<open>stop\<close> with \<open>force\<close> false returns
  \<^verbatim>\<open>False\<close>, makes no call to the group, and changes the user object in the
  \<^verbatim>\<open>_state\<close> attribute only, which becomes stopping.
\<close>

theorem stop_running_defers:
  assumes "getattr self ''_state'' = Returned LOCUST_STATE_RUNNING"
  shows "stop self False
     = (Returned (PyBool False),
        self\<lparr>ob_dict := (ob_dict self)(''_state'' \<mapsto> LOCUST_STATE_STOPPING)\<rparr>, [])"
  using assms by (simp add: stop_def setattr_def state_constants_distinct)

theorem stop_running_defers_witness:
  "stop (setattr sample_user ''_state'' LOCUST_STATE_RUNNING) False
     = (Returned (PyBool False),
        (setattr sample_user ''_state'' LOCUST_STATE_RUNNING)
          \<lparr>ob_dict := (ob_dict (setattr sample_user ''_state'' LOCUST_STATE_RUNNING))
             (''_state'' \<mapsto> LOCUST_STATE_STOPPING)\<rparr>, [])"
  by (rule stop_running_defers) (simp add: getattr_setattr_same)

text \<open>
  C3. For a user that was never run (\<^verbatim>\<open>_state\<close> is \<^verbatim>\<open>None\<close>) or is already
  stopping, \<^verbatim>\<open>stop\<close> with \<open>force\<close> false makes no call to the group and leaves the
  user object as it was, but what it returns is \<^verbatim>\<open>None\<close>, the value of a function
  that falls off its end, and not \<^verbatim>\<open>False\<close>.
\<close>

theorem stop_unstarted_returns_None:
  "stop sample_user False = (Returned PyNone, sample_user, [])
   \<and> stop (setattr sample_user ''_state'' LOCUST_STATE_STOPPING) False
       = (Returned PyNone, setattr sample_user ''_state'' LOCUST_STATE_STOPPING, [])
   \<and> Returned PyNone \<noteq> Returned (PyBool False)"
  by (simp add: stop_def getattr_sample_user getattr_setattr_same state_constants_distinct)

section \<open>Running a user\<close>

lemma run_entry_state:
  "getattr (run_entry self) ''_state'' = Returned LOCUST_STATE_RUNNING"
  "getattr (run_entry self) ''_taskset_instance'' = Returned PyDefaultTaskSet"
  by (simp_all add: run_entry_def getattr_setattr_same getattr_setattr_other)

lemma run_body_raised:
  assumes "raised_by_setup_or_loop hk self e s evs"
  shows "run_body hk (run_entry self) = (Raised e, s, evs)"
  using assms
  by (auto simp: raised_by_setup_or_loop_def run_body_def taskset_call_def
      split: prod.splits outcome.splits)

lemma run_calls_setup_first:
  "take 2 (snd (snd (run hk self))) = [Call_DefaultTaskSet, Call_on_start]"
  by (auto simp: run_def run_body_def taskset_call_def split: prod.splits outcome.splits)

text \<open>
  C4 (as amended). \<^verbatim>\<open>run\<close> sets the state to running and calls the setup hook before
  anything else, so before the task loop. When \<^verbatim>\<open>StopUser\<close> or \<^verbatim>\<open>GreenletExit\<close>
  comes out of the setup hook or the task loop, \<^verbatim>\<open>run\<close> calls the teardown hook, once,
  and ends as the teardown hook ends: it returns normally when \<^verbatim>\<open>on_stop\<close> returns, and
  the signal that was caught is not raised again.
\<close>

theorem run_signal_runs_teardown:
  assumes "e = GreenletExit \<or> e = StopUser"
    and "raised_by_setup_or_loop hk self e s evs"
  shows "getattr (run_entry self) ''_state'' = Returned LOCUST_STATE_RUNNING
       \<and> take 2 (snd (snd (run hk self))) = [Call_DefaultTaskSet, Call_on_start]
       \<and> run hk self
           = (fst (on_stop hk s), snd (on_stop hk s),
              Call_DefaultTaskSet # evs @ [Call_on_stop])
       \<and> (fst (on_stop hk s) = Returned () \<longrightarrow> fst (run hk self) = Returned ())"
proof -
  have body: "run_body hk (run_entry self) = (Raised e, s, evs)"
    using assms(2) by (rule run_body_raised)
  have r: "run hk self
           = (fst (on_stop hk s), snd (on_stop hk s),
              Call_DefaultTaskSet # evs @ [Call_on_stop])"
    using assms(1) by (auto simp: run_def body split: prod.splits)
  have n: "fst (on_stop hk s) = Returned () \<longrightarrow> fst (run hk self) = Returned ()"
    using r by simp
  show ?thesis
    using run_entry_state(1) run_calls_setup_first r n by blast
qed

lemma setup_stops_raised:
  "raised_by_setup_or_loop hooks_setup_stops sample_user StopUser (run_entry sample_user)
     [Call_on_start]"
  by (simp add: raised_by_setup_or_loop_def hooks_setup_stops_def)

lemma loop_killed_raised:
  "raised_by_setup_or_loop hooks_loop_killed sample_user GreenletExit
     (setattr (run_entry sample_user) ''_state'' LOCUST_STATE_WAITING)
     [Call_on_start, Call_taskset_run]"
  by (simp add: raised_by_setup_or_loop_def hooks_loop_killed_def pass_def run_entry_state)

theorem run_signal_runs_teardown_witness:
  "run hooks_setup_stops sample_user
     = (Returned (), run_entry sample_user,
        [Call_DefaultTaskSet, Call_on_start, Call_on_stop])
   \<and> run hooks_loop_killed sample_user
     = (Returned (), setattr (run_entry sample_user) ''_state'' LOCUST_STATE_WAITING,
        [Call_DefaultTaskSet, Call_on_start, Call_taskset_run, Call_on_stop])"
  using run_signal_runs_teardown [OF _ setup_stops_raised]
    run_signal_runs_teardown [OF _ loop_killed_raised]
  by (simp add: hooks_setup_stops_def hooks_loop_killed_def pass_def)

text \<open>
  C4 as stated fails: here the task loop ends with \<^verbatim>\<open>StopUser\<close>, the teardown hook
  raises, and \<^verbatim>\<open>run\<close> does not return normally.
\<close>

theorem run_teardown_failure_surfaces:
  "raised_by_setup_or_loop hooks_teardown_fails sample_user StopUser (run_entry sample_user)
     [Call_on_start, Call_taskset_run]
   \<and> fst (run hooks_teardown_fails sample_user) = Raised (LocustError no_client_message)
   \<and> fst (run hooks_teardown_fails sample_user) \<noteq> Returned ()"
  by (simp add: raised_by_setup_or_loop_def hooks_teardown_fails_def pass_def run_entry_state
      run_def run_body_def taskset_call_def)

text \<open>
  C5. An exception other than \<^verbatim>\<open>StopUser\<close> and \<^verbatim>\<open>GreenletExit\<close> that comes out of
  the setup hook or the task loop leaves \<^verbatim>\<open>run\<close> as it is: the teardown hook is not
  called, and neither the setup hook nor the task loop is entered a second time.
\<close>

theorem run_other_exception_propagates:
  assumes "e \<noteq> GreenletExit" and "e \<noteq> StopUser"
    and "raised_by_setup_or_loop hk self e s evs"
  shows "run hk self = (Raised e, s, Call_DefaultTaskSet # evs)
       \<and> Call_on_stop \<notin> set (snd (snd (run hk self)))
       \<and> count_list (snd (snd (run hk self))) Call_on_start = 1
       \<and> count_list (snd (snd (run hk self))) Call_taskset_run \<le> 1"
proof -
  have body: "run_body hk (run_entry self) = (Raised e, s, evs)"
    using assms(3) by (rule run_body_raised)
  have r: "run hk self = (Raised e, s, Call_DefaultTaskSet # evs)"
    using assms(1,2) by (simp add: run_def body)
  have "evs = [Call_on_start] \<or> evs = [Call_on_start, Call_taskset_run]"
    using assms(3) by (auto simp: raised_by_setup_or_loop_def)
  then show ?thesis using r by auto
qed

lemma task_fails_raised:
  "raised_by_setup_or_loop hooks_task_fails sample_user (OtherException ''ValueError'')
     (run_entry sample_user) [Call_on_start, Call_taskset_run]"
  by (simp add: raised_by_setup_or_loop_def hooks_task_fails_def pass_def run_entry_state)

lemma setup_fails_raised:
  "raised_by_setup_or_loop hooks_setup_fails sample_user (OtherException ''KeyError'')
     (run_entry sample_user) [Call_on_start]"
  by (simp add: raised_by_setup_or_loop_def hooks_setup_fails_def)

theorem run_other_exception_propagates_witness:
  "run hooks_task_fails sample_user
     = (Raised (OtherException ''ValueError''), run_entry sample_user,
        [Call_DefaultTaskSet, Call_on_start, Call_taskset_run])
   \<and> run hooks_setup_fails sample_user
     = (Raised (OtherException ''KeyError''), run_entry sample_user,
        [Call_DefaultTaskSet, Call_on_start])"
  using run_other_exception_propagates [OF _ _ task_fails_raised]
    run_other_exception_propagates [OF _ _ setup_fails_raised]
  by simp

section \<open>Waiting\<close>

lemma getattr_User_init_other:
  "a \<noteq> ''environment'' \<Longrightarrow> getattr (User_init self env) a = getattr self a"
  by (simp add: User_init_def getattr_setattr_other)

lemma getattr_new_object:
  "getattr (new_object c) a
     = (case class_lookup c a of Some v \<Rightarrow> Returned v | None \<Rightarrow> Raised (AttributeError a))"
  by (simp add: getattr_def new_object_def)

lemma stop_keeps_other_attributes:
  "a \<noteq> ''_state'' \<Longrightarrow> getattr (fst (snd (stop self force))) a = getattr self a"
  by (auto simp: stop_def getattr_setattr_other split: outcome.splits bool.splits)

lemma start_keeps_other_attributes:
  "a \<noteq> ''_greenlet'' \<Longrightarrow> getattr (fst (snd (start g self))) a = getattr self a"
  by (simp add: start_def getattr_setattr_other)

text \<open>
  C10. \<^verbatim>\<open>wait\<close> delegates to \<^verbatim>\<open>self._taskset_instance\<close> without a test. While that
  attribute is \<^verbatim>\<open>None\<close> the call fails with \<^verbatim>\<open>AttributeError\<close> and does nothing; it
  is \<^verbatim>\<open>None\<close> on a newly constructed user (the class default), \<^verbatim>\<open>start\<close> and
  \<^verbatim>\<open>stop\<close> leave it as it is, and the first statements of \<^verbatim>\<open>run\<close> bind it to the
  task set, after which \<^verbatim>\<open>wait\<close> is the task set's \<^verbatim>\<open>wait\<close>.
\<close>

theorem wait_needs_run:
  "(getattr self ''_taskset_instance'' = Returned PyNone
      \<longrightarrow> wait hk self = (Raised (AttributeError ''wait''), self, []))
   \<and> (class_lookup c ''_taskset_instance'' = Some PyNone
      \<longrightarrow> getattr (User_init (new_object c) env) ''_taskset_instance'' = Returned PyNone)
   \<and> getattr (fst (snd (start g self))) ''_taskset_instance''
       = getattr self ''_taskset_instance''
   \<and> getattr (fst (snd (stop self force))) ''_taskset_instance''
       = getattr self ''_taskset_instance''
   \<and> getattr (run_entry self) ''_taskset_instance'' = Returned PyDefaultTaskSet
   \<and> wait hk (run_entry self)
       = (fst (taskset_wait hk (run_entry self)), snd (taskset_wait hk (run_entry self)),
          [Call_taskset_wait])"
proof (intro conjI impI)
  assume "getattr self ''_taskset_instance'' = Returned PyNone"
  then show "wait hk self = (Raised (AttributeError ''wait''), self, [])"
    by (simp add: wait_def taskset_call_def)
next
  assume "class_lookup c ''_taskset_instance'' = Some PyNone"
  then show "getattr (User_init (new_object c) env) ''_taskset_instance'' = Returned PyNone"
    by (simp add: getattr_User_init_other getattr_new_object)
next
  show "getattr (fst (snd (start g self))) ''_taskset_instance''
       = getattr self ''_taskset_instance''"
    by (simp add: start_keeps_other_attributes)
next
  show "getattr (fst (snd (stop self force))) ''_taskset_instance''
       = getattr self ''_taskset_instance''"
    by (simp add: stop_keeps_other_attributes)
next
  show "getattr (run_entry self) ''_taskset_instance'' = Returned PyDefaultTaskSet"
    by (rule run_entry_state(2))
next
  show "wait hk (run_entry self)
       = (fst (taskset_wait hk (run_entry self)), snd (taskset_wait hk (run_entry self)),
          [Call_taskset_wait])"
    by (simp add: wait_def taskset_call_def run_entry_state split: prod.splits)
qed

lemma class_lookup_MyUser:
  "class_lookup MyUser_class ''_taskset_instance'' = Some PyNone"
  "class_lookup MyUser_class ''client'' = Some PyNoClientWarningRaiser"
  "class_lookup MyUser_class ''host'' = Some PyNone"
  "class_lookup MyUser_class ''abstract'' = Some (PyBool False)"
  "class_lookup MyUser_class ''tasks'' = Some (PyList [])"
  by (simp_all add: MyUser_class_def MyUser_body_def User_class_def User_body_def)

theorem wait_needs_run_witness:
  "wait hooks_setup_stops sample_user = (Raised (AttributeError ''wait''), sample_user, [])
   \<and> getattr (User_init (new_object MyUser_class) sample_environment) ''_taskset_instance''
       = Returned PyNone
   \<and> wait hooks_setup_stops (run_entry sample_user)
       = (Returned (), run_entry sample_user, [Call_taskset_wait])"
  using wait_needs_run [of sample_user hooks_setup_stops MyUser_class sample_environment
      PyNone False]
  by (simp add: getattr_sample_user class_lookup_MyUser hooks_setup_stops_def pass_def)

section \<open>Constructing an HTTP user\<close>

text \<open>
  C6. With \<^verbatim>\<open>host\<close> \<^verbatim>\<open>None\<close>, \<^verbatim>\<open>HttpUser.__init__\<close> raises inside the constructor
  (the error class of the source is \<^verbatim>\<open>LocustError\<close>; the spec calls this error
  \<^verbatim>\<open>ConfigurationError\<close>): no \<^verbatim>\<open>HttpSession\<close> has been created, \<^verbatim>\<open>client\<close> is not
  bound, and the instance is as the inherited \<^verbatim>\<open>User.__init__\<close> left it. With a host,
  the constructor returns and \<^verbatim>\<open>client\<close> is a session on that host with
  \<^verbatim>\<open>trust_env\<close> false.
\<close>

theorem HttpUser_init_checks_host_first:
  "(getattr self ''host'' = Returned PyNone
      \<longrightarrow> HttpUser_init self env
            = (Raised (LocustError no_host_message), User_init self env, [])
          \<and> getattr (User_init self env) ''client'' = getattr self ''client'')
   \<and> (getattr self ''host'' = Returned h \<and> h \<noteq> PyNone
      \<longrightarrow> HttpUser_init self (PyEnvironment rs rf)
            = (Returned (),
               setattr (User_init self (PyEnvironment rs rf)) ''client''
                 (PyHttpSession h rs rf False),
               [Call_HttpSession h]))"
  by (simp add: HttpUser_init_def getattr_User_init_other)
    (simp add: User_init_def getattr_setattr_same HttpSession_def)

lemma class_lookup_host:
  "class_lookup HttpUser_class ''host'' = Some PyNone"
  "class_lookup MyHttpUser_class ''host'' = Some (PyStr ''http://127.0.0.1'')"
  by (simp_all add: MyHttpUser_class_def HttpUser_class_def HttpUser_body_def
      User_class_def User_body_def)

theorem HttpUser_init_checks_host_first_witness:
  "HttpUser_init (new_object HttpUser_class) sample_environment
     = (Raised (LocustError no_host_message),
        User_init (new_object HttpUser_class) sample_environment, [])
   \<and> HttpUser_init (new_object MyHttpUser_class) sample_environment
     = (Returned (),
        setattr (User_init (new_object MyHttpUser_class) sample_environment) ''client''
          (PyHttpSession (PyStr ''http://127.0.0.1'') (PyFun ''request_success'')
             (PyFun ''request_failure'') False),
        [Call_HttpSession (PyStr ''http://127.0.0.1'')])"
  using HttpUser_init_checks_host_first [of "new_object HttpUser_class" sample_environment
      PyNone PyNone PyNone]
    HttpUser_init_checks_host_first [of "new_object MyHttpUser_class" PyNone
      "PyStr ''http://127.0.0.1''" "PyFun ''request_success''" "PyFun ''request_failure''"]
  by (simp add: getattr_new_object class_lookup_host sample_environment_def)

section \<open>The metaclass\<close>

lemma dict_get_update_other:
  "k \<noteq> k' \<Longrightarrow> dict_get (AList.update k v d) k' = dict_get d k'"
  by (simp add: dict_get_def update_conv')

lemma truthy_dict_get:
  "truthy (dict_get cd k) \<Longrightarrow> map_of cd k \<noteq> None"
  by (cases "map_of cd k") (simp_all add: dict_get_def)

lemma UserMeta_new_builds:
  assumes "gt bases cd = Returned ts"
    and "chk (if truthy (dict_get cd ''abstract'')
              then AList.update ''tasks'' ts cd
              else AList.update ''abstract'' (PyBool False) (AList.update ''tasks'' ts cd))
         = Returned ()"
  shows "UserMeta_new gt chk name bases cd
     = (Returned (PyClass name bases
          (if truthy (dict_get cd ''abstract'')
           then AList.update ''tasks'' ts cd
           else AList.update ''abstract'' (PyBool False) (AList.update ''tasks'' ts cd))),
        [Call_get_tasks_from_base_classes, Call_check_for_deprecated_task_set_attribute])"
  using assms
  by (cases "truthy (dict_get cd ''abstract'')")
    (simp_all add: UserMeta_new_def Let_def dict_get_update_other)

text \<open>
  C8. Whenever the resolver and the deprecation check return, the metaclass builds the
  class, and the class holds \<^verbatim>\<open>abstract\<close> in its own namespace: when the class body
  does not bind \<^verbatim>\<open>abstract\<close> to a truthy value the entry is \<^verbatim>\<open>False\<close>, and lookup
  on the class finds that \<^verbatim>\<open>False\<close> whatever its bases hold; otherwise the entry is
  the one of the class body.
\<close>

theorem UserMeta_new_abstract_not_inherited:
  assumes "gt bases cd = Returned ts"
    and "chk (if truthy (dict_get cd ''abstract'')
              then AList.update ''tasks'' ts cd
              else AList.update ''abstract'' (PyBool False) (AList.update ''tasks'' ts cd))
         = Returned ()"
  shows "\<exists>c. UserMeta_new gt chk name bases cd
             = (Returned c,
                [Call_get_tasks_from_base_classes,
                 Call_check_for_deprecated_task_set_attribute])
           \<and> class_name c = name \<and> class_bases c = bases
           \<and> (\<not> truthy (dict_get cd ''abstract'')
                \<longrightarrow> map_of (class_namespace c) ''abstract'' = Some (PyBool False)
                    \<and> class_lookup c ''abstract'' = Some (PyBool False))
           \<and> (truthy (dict_get cd ''abstract'')
                \<longrightarrow> map_of (class_namespace c) ''abstract'' = map_of cd ''abstract'')
           \<and> map_of (class_namespace c) ''abstract'' \<noteq> None"
proof (cases "truthy (dict_get cd ''abstract'')")
  case True
  then show ?thesis
    using assms UserMeta_new_builds [of gt bases cd ts chk name] truthy_dict_get [OF True]
    by (simp add: update_conv')
next
  case False
  then show ?thesis
    using assms UserMeta_new_builds [of gt bases cd ts chk name]
    by (simp add: update_conv')
qed

lemma MyUser_class_built:
  "UserMeta_new no_tasks no_warning ''MyUser'' [User_class] MyUser_body
     = (Returned MyUser_class,
        [Call_get_tasks_from_base_classes, Call_check_for_deprecated_task_set_attribute])"
  by (simp add: UserMeta_new_def no_tasks_def no_warning_def MyUser_class_def
      MyUser_body_def dict_get_def)

lemma User_class_built:
  "UserMeta_new no_tasks no_warning ''User'' [object_class] User_body
     = (Returned User_class,
        [Call_get_tasks_from_base_classes, Call_check_for_deprecated_task_set_attribute])"
  by (simp add: UserMeta_new_def no_tasks_def no_warning_def User_class_def User_body_def
      dict_get_def)

lemma TaskUser_class_built:
  "UserMeta_new two_tasks no_warning ''TaskUser'' [User_class] TaskUser_body
     = (Returned TaskUser_class,
        [Call_get_tasks_from_base_classes, Call_check_for_deprecated_task_set_attribute])"
  by (simp add: UserMeta_new_def two_tasks_def no_warning_def TaskUser_class_def
      TaskUser_body_def dict_get_def)

theorem UserMeta_new_abstract_not_inherited_witness:
  "UserMeta_new no_tasks no_warning ''MyUser'' [User_class] MyUser_body
     = (Returned MyUser_class,
        [Call_get_tasks_from_base_classes, Call_check_for_deprecated_task_set_attribute])
   \<and> class_lookup User_class ''abstract'' = Some (PyBool True)
   \<and> map_of MyUser_body ''abstract'' = None
   \<and> map_of (class_namespace MyUser_class) ''abstract'' = Some (PyBool False)
   \<and> class_lookup MyUser_class ''abstract'' = Some (PyBool False)
   \<and> UserMeta_new no_tasks no_warning ''User'' [object_class] User_body
     = (Returned User_class,
        [Call_get_tasks_from_base_classes, Call_check_for_deprecated_task_set_attribute])
   \<and> map_of (class_namespace User_class) ''abstract'' = Some (PyBool True)"
proof -
  have m: "\<exists>c. UserMeta_new no_tasks no_warning ''MyUser'' [User_class] MyUser_body
             = (Returned c,
                [Call_get_tasks_from_base_classes,
                 Call_check_for_deprecated_task_set_attribute])
           \<and> map_of (class_namespace c) ''abstract'' = Some (PyBool False)
           \<and> class_lookup c ''abstract'' = Some (PyBool False)"
    using UserMeta_new_abstract_not_inherited
      [of no_tasks "[User_class]" MyUser_body "PyList []" no_warning "''MyUser''"]
    by (auto simp add: no_tasks_def no_warning_def dict_get_def MyUser_body_def)
  have u: "\<exists>c. UserMeta_new no_tasks no_warning ''User'' [object_class] User_body
             = (Returned c,
                [Call_get_tasks_from_base_classes,
                 Call_check_for_deprecated_task_set_attribute])
           \<and> map_of (class_namespace c) ''abstract'' = map_of User_body ''abstract''"
    using UserMeta_new_abstract_not_inherited
      [of no_tasks "[object_class]" User_body "PyList []" no_warning "''User''"]
    by (auto simp add: no_tasks_def no_warning_def dict_get_def User_body_def)
  show ?thesis
    using m u
    by (auto simp: MyUser_class_built User_class_built)
      (simp_all add: User_class_def User_body_def MyUser_body_def)
qed

section \<open>The client placeholder\<close>

lemma NoClientWarningRaiser_lookup_inherited:
  assumes "name \<notin> {''__module__'', ''__doc__'', ''__getattr__'', ''__dict__'', ''__weakref__''}"
  shows "class_lookup (NoClientWarningRaiser_class obj) name = class_lookup obj name"
  using assms by (simp add: NoClientWarningRaiser_class_def split: option.splits)

lemma getattr_sample_user_client:
  "getattr sample_user ''client'' = Returned PyNoClientWarningRaiser"
  by (simp add: sample_user_def getattr_User_init_other getattr_new_object class_lookup_MyUser)

lemma object_class_has_no_get: "class_lookup object_class ''get'' = None"
  by (simp add: object_class_def)

text \<open>
  C9 (as amended). For a user whose \<^verbatim>\<open>client\<close> is the placeholder of \<^verbatim>\<open>User\<close>,
  \<^verbatim>\<open>self.client.name\<close> raises \<^verbatim>\<open>LocustError\<close> with the message pointing to
  \<^verbatim>\<open>HttpUser\<close>, for every name that is neither bound in the namespace of
  \<^verbatim>\<open>NoClientWarningRaiser\<close> nor found on \<^verbatim>\<open>object\<close>, whatever names the
  interpreter's \<^verbatim>\<open>object\<close> has.
\<close>

theorem client_attribute_raises_LocustError:
  assumes "getattr self ''client'' = Returned PyNoClientWarningRaiser"
    and "name \<notin> {''__module__'', ''__doc__'', ''__getattr__'', ''__dict__'', ''__weakref__''}"
    and "class_lookup obj name = None"
  shows "client_attribute obj other self name = Raised (LocustError no_client_message)"
  using assms(1,3) NoClientWarningRaiser_lookup_inherited [OF assms(2), of obj]
  by (simp add: client_attribute_def NoClientWarningRaiser_attribute_def
      NoClientWarningRaiser_getattr_def)

theorem client_attribute_raises_LocustError_witness:
  "client_attribute object_class no_other_client sample_user ''get''
     = Raised (LocustError no_client_message)"
  by (rule client_attribute_raises_LocustError
      [OF getattr_sample_user_client _ object_class_has_no_get]) simp

text \<open>
  C9 as stated fails: \<^verbatim>\<open>__getattr__\<close> is only the fallback of attribute access, and
  \<^verbatim>\<open>self.client.__doc__\<close> is the docstring of the class.
\<close>

theorem client_doc_is_returned:
  "getattr sample_user ''client'' = Returned PyNoClientWarningRaiser
   \<and> client_attribute object_class no_other_client sample_user ''__doc__''
       = Returned (PyStr NoClientWarningRaiser_doc)
   \<and> client_attribute object_class no_other_client sample_user ''__doc__''
       \<noteq> Raised (LocustError no_client_message)"
  by (simp add: getattr_sample_user_client client_attribute_def
      NoClientWarningRaiser_attribute_def NoClientWarningRaiser_class_def)

section \<open>The task list of a class\<close>

lemma setattr_keeps:
  "ob_type (setattr s a v) = ob_type s"
  "a \<noteq> b \<Longrightarrow> ob_dict (setattr s a v) b = ob_dict s b"
  by (simp_all add: setattr_def)

lemma User_init_keeps:
  "ob_type (User_init s env) = ob_type s"
  "ob_dict (User_init s env) ''tasks'' = ob_dict s ''tasks''"
  by (simp_all add: User_init_def setattr_keeps)

lemma HttpUser_init_keeps:
  "ob_type (fst (snd (HttpUser_init s env))) = ob_type s"
  "ob_dict (fst (snd (HttpUser_init s env))) ''tasks'' = ob_dict s ''tasks''"
  by (auto simp: HttpUser_init_def Let_def User_init_keeps setattr_keeps
      split: outcome.splits pyval.splits)

lemma start_keeps:
  "ob_type (fst (snd (start g s))) = ob_type s"
  "ob_dict (fst (snd (start g s))) ''tasks'' = ob_dict s ''tasks''"
  by (simp_all add: start_def setattr_keeps)

lemma stop_keeps:
  "ob_type (fst (snd (stop s force))) = ob_type s"
  "ob_dict (fst (snd (stop s force))) ''tasks'' = ob_dict s ''tasks''"
  by (auto simp: stop_def setattr_keeps split: outcome.splits bool.splits)

lemma taskset_call_keeps:
  assumes "keeps_tasks m"
  shows "ob_type (fst (snd (taskset_call m name ev s))) = ob_type s
       \<and> ob_dict (fst (snd (taskset_call m name ev s))) ''tasks'' = ob_dict s ''tasks''"
proof -
  have "ob_type (snd (m s)) = ob_type s \<and> ob_dict (snd (m s)) ''tasks'' = ob_dict s ''tasks''"
    using assms by (simp add: keeps_tasks_def)
  then show ?thesis
    by (cases "m s") (auto simp: taskset_call_def split: outcome.splits)
qed

lemma run_entry_keeps:
  "ob_type (run_entry s) = ob_type s"
  "ob_dict (run_entry s) ''tasks'' = ob_dict s ''tasks''"
  by (simp_all add: run_entry_def setattr_keeps)

lemma run_body_keeps:
  assumes "keeps_tasks (on_start hk)" and "keeps_tasks (taskset_run hk)"
  shows "ob_type (fst (snd (run_body hk s))) = ob_type s
       \<and> ob_dict (fst (snd (run_body hk s))) ''tasks'' = ob_dict s ''tasks''"
proof -
  obtain r s1 where o: "on_start hk s = (r, s1)" by (cases "on_start hk s")
  have s1: "ob_type s1 = ob_type s \<and> ob_dict s1 ''tasks'' = ob_dict s ''tasks''"
    using assms(1) o by (metis keeps_tasks_def snd_conv)
  show ?thesis
  proof (cases r)
    case (Returned u)
    then show ?thesis
      using taskset_call_keeps [OF assms(2), of "''run''" Call_taskset_run s1] s1
      by (auto simp: run_body_def o split: prod.splits)
  next
    case (Raised e)
    then show ?thesis using s1 by (simp add: run_body_def o)
  next
    case Hangs
    then show ?thesis using s1 by (simp add: run_body_def o)
  qed
qed

lemma run_keeps:
  assumes "keeps_tasks (on_start hk)" and "keeps_tasks (taskset_run hk)"
    and "keeps_tasks (on_stop hk)"
  shows "ob_type (fst (snd (run hk s))) = ob_type s
       \<and> ob_dict (fst (snd (run hk s))) ''tasks'' = ob_dict s ''tasks''"
proof -
  obtain r s3 evs where b: "run_body hk (run_entry s) = (r, s3, evs)"
    by (cases "run_body hk (run_entry s)")
  have s3: "ob_type s3 = ob_type s \<and> ob_dict s3 ''tasks'' = ob_dict s ''tasks''"
    using run_body_keeps [OF assms(1,2), of "run_entry s"] b
    by (simp add: run_entry_keeps)
  have s4: "ob_type (snd (on_stop hk s3)) = ob_type s
          \<and> ob_dict (snd (on_stop hk s3)) ''tasks'' = ob_dict s ''tasks''"
    using assms(3) s3 by (simp add: keeps_tasks_def)
  show ?thesis
    using s3 s4 by (cases r) (auto simp: run_def b split: prod.splits)
qed

lemma lives_reads_class:
  assumes "keeps_tasks (on_start hk)" and "keeps_tasks (on_stop hk)"
    and "keeps_tasks (taskset_run hk)" and "keeps_tasks (taskset_wait hk)"
    and "lives hk c s"
  shows "ob_type s = c \<and> ob_dict s ''tasks'' = None"
  using assms(5)
proof (induction rule: lives.induct)
  case (constructed env)
  show ?case by (simp add: User_init_keeps new_object_def)
next
  case (http_constructed env)
  show ?case by (simp add: HttpUser_init_keeps new_object_def)
next
  case (started s g)
  then show ?case by (simp add: start_keeps)
next
  case (stopped s force)
  then show ?case by (simp add: stop_keeps)
next
  case (waited s)
  then show ?case
    using taskset_call_keeps [OF assms(4), of "''wait''" Call_taskset_wait s]
    by (simp add: wait_def)
next
  case (ran s)
  then show ?case using run_keeps [OF assms(1,3,2), of s] by simp
qed

lemma run_events:
  "set (snd (snd (run hk self)))
     \<subseteq> {Call_DefaultTaskSet, Call_on_start, Call_taskset_run, Call_on_stop}"
  by (auto simp: run_def run_body_def taskset_call_def split: prod.splits outcome.splits
      if_splits)

lemma stop_events:
  "Call_get_tasks_from_base_classes \<notin> set (snd (snd (stop self force)))"
  by (auto simp: stop_def split: outcome.splits bool.splits)

lemma wait_events:
  "Call_get_tasks_from_base_classes \<notin> set (snd (snd (wait hk self)))"
  by (auto simp: wait_def taskset_call_def split: outcome.splits prod.splits)

lemma HttpUser_init_events:
  "Call_get_tasks_from_base_classes \<notin> set (snd (snd (HttpUser_init self env)))"
  by (auto simp: HttpUser_init_def Let_def split: outcome.splits pyval.splits)

text \<open>
  C7. Whenever the resolver and the deprecation check return, the metaclass builds the
  class with one call of the resolver, on the bases and the class body, and stores what
  the resolver returned under \<^verbatim>\<open>tasks\<close> in the namespace of the class. An instance,
  in every state it goes through, is an instance of that class with no \<^verbatim>\<open>tasks\<close>
  entry of its own, so that it reads the list of the class; the hooks are assumed not to
  touch that entry. No method of an instance calls the resolver.
\<close>

theorem tasks_resolved_once_per_class:
  assumes "gt bases cd = Returned ts"
    and "chk (if truthy (dict_get cd ''abstract'')
              then AList.update ''tasks'' ts cd
              else AList.update ''abstract'' (PyBool False) (AList.update ''tasks'' ts cd))
         = Returned ()"
  shows "\<exists>c evs. UserMeta_new gt chk name bases cd = (Returned c, evs)
           \<and> count_list evs Call_get_tasks_from_base_classes = 1
           \<and> map_of (class_namespace c) ''tasks'' = Some ts
           \<and> class_lookup c ''tasks'' = Some ts
           \<and> (keeps_tasks (on_start hk) \<and> keeps_tasks (on_stop hk)
                \<and> keeps_tasks (taskset_run hk) \<and> keeps_tasks (taskset_wait hk)
                \<and> lives hk c s
              \<longrightarrow> ob_type s = c \<and> ob_dict s ''tasks'' = None
                  \<and> getattr s ''tasks'' = Returned ts)
           \<and> Call_get_tasks_from_base_classes \<notin> set (snd (snd (start g self)))
           \<and> Call_get_tasks_from_base_classes \<notin> set (snd (snd (stop self force)))
           \<and> Call_get_tasks_from_base_classes \<notin> set (snd (snd (run hk self)))
           \<and> Call_get_tasks_from_base_classes \<notin> set (snd (snd (wait hk self)))
           \<and> Call_get_tasks_from_base_classes \<notin> set (snd (snd (HttpUser_init self env)))"
proof -
  define d where "d = (if truthy (dict_get cd ''abstract'')
              then AList.update ''tasks'' ts cd
              else AList.update ''abstract'' (PyBool False) (AList.update ''tasks'' ts cd))"
  define c where "c = PyClass name bases d"
  have b: "UserMeta_new gt chk name bases cd
     = (Returned c,
        [Call_get_tasks_from_base_classes, Call_check_for_deprecated_task_set_attribute])"
    using assms UserMeta_new_builds [of gt bases cd ts chk name] by (simp add: c_def d_def)
  have m: "map_of (class_namespace c) ''tasks'' = Some ts"
    by (simp add: c_def d_def update_conv')
  have l: "class_lookup c ''tasks'' = Some ts"
    using m by (simp add: c_def)
  have i: "keeps_tasks (on_start hk) \<and> keeps_tasks (on_stop hk)
                \<and> keeps_tasks (taskset_run hk) \<and> keeps_tasks (taskset_wait hk)
                \<and> lives hk c s
              \<longrightarrow> ob_type s = c \<and> ob_dict s ''tasks'' = None
                  \<and> getattr s ''tasks'' = Returned ts"
  proof
    assume h: "keeps_tasks (on_start hk) \<and> keeps_tasks (on_stop hk)
                \<and> keeps_tasks (taskset_run hk) \<and> keeps_tasks (taskset_wait hk)
                \<and> lives hk c s"
    then have "ob_type s = c \<and> ob_dict s ''tasks'' = None"
      using lives_reads_class [of hk c s] by blast
    then show "ob_type s = c \<and> ob_dict s ''tasks'' = None
                  \<and> getattr s ''tasks'' = Returned ts"
      using l by (simp add: getattr_def)
  qed
  have r: "Call_get_tasks_from_base_classes \<notin> set (snd (snd (run hk self)))"
    using run_events [of hk self] by auto
  have st: "Call_get_tasks_from_base_classes \<notin> set (snd (snd (start g self)))"
    by (simp add: start_def)
  have n: "count_list [Call_get_tasks_from_base_classes,
        Call_check_for_deprecated_task_set_attribute] Call_get_tasks_from_base_classes = 1"
    by simp
  show ?thesis
    using b n m l i r st stop_events wait_events HttpUser_init_events by blast
qed

lemma hooks_loop_killed_keep_tasks:
  "keeps_tasks (on_start hooks_loop_killed) \<and> keeps_tasks (on_stop hooks_loop_killed)
   \<and> keeps_tasks (taskset_run hooks_loop_killed) \<and> keeps_tasks (taskset_wait hooks_loop_killed)"
  by (simp add: hooks_loop_killed_def keeps_tasks_def pass_def setattr_keeps)

lemma TaskUser_lives:
  "lives hooks_loop_killed TaskUser_class
     (fst (snd (run hooks_loop_killed
        (fst (snd (start (PyGreenlet 1)
           (User_init (new_object TaskUser_class) sample_environment)))))))"
  by (intro lives.ran lives.started lives.constructed)

theorem tasks_resolved_once_per_class_witness:
  "UserMeta_new two_tasks no_warning ''TaskUser'' [User_class] TaskUser_body
     = (Returned TaskUser_class,
        [Call_get_tasks_from_base_classes, Call_check_for_deprecated_task_set_attribute])
   \<and> class_lookup User_class ''tasks'' = Some (PyList [])
   \<and> class_lookup TaskUser_class ''tasks'' = Some (PyList [PyFun ''index'', PyFun ''about''])
   \<and> getattr (fst (snd (run hooks_loop_killed
        (fst (snd (start (PyGreenlet 1)
           (User_init (new_object TaskUser_class) sample_environment))))))) ''tasks''
       = Returned (PyList [PyFun ''index'', PyFun ''about''])"
proof -
  let ?s = "fst (snd (run hooks_loop_killed
        (fst (snd (start (PyGreenlet 1)
           (User_init (new_object TaskUser_class) sample_environment))))))"
  have g: "two_tasks [User_class] TaskUser_body
             = Returned (PyList [PyFun ''index'', PyFun ''about''])"
    by (simp add: two_tasks_def)
  have k: "no_warning
             (if truthy (dict_get TaskUser_body ''abstract'')
              then AList.update ''tasks'' (PyList [PyFun ''index'', PyFun ''about''])
                     TaskUser_body
              else AList.update ''abstract'' (PyBool False)
                     (AList.update ''tasks'' (PyList [PyFun ''index'', PyFun ''about''])
                        TaskUser_body))
           = Returned ()"
    by (simp add: no_warning_def)
  obtain c evs where
    b: "UserMeta_new two_tasks no_warning ''TaskUser'' [User_class] TaskUser_body
          = (Returned c, evs)"
    and l: "class_lookup c ''tasks'' = Some (PyList [PyFun ''index'', PyFun ''about''])"
    and i: "keeps_tasks (on_start hooks_loop_killed) \<and> keeps_tasks (on_stop hooks_loop_killed)
            \<and> keeps_tasks (taskset_run hooks_loop_killed)
            \<and> keeps_tasks (taskset_wait hooks_loop_killed)
            \<and> lives hooks_loop_killed c ?s
          \<longrightarrow> ob_type ?s = c \<and> ob_dict ?s ''tasks'' = None
              \<and> getattr ?s ''tasks'' = Returned (PyList [PyFun ''index'', PyFun ''about''])"
    using tasks_resolved_once_per_class
      [where gt = two_tasks and bases = "[User_class]" and cd = TaskUser_body
        and ts = "PyList [PyFun ''index'', PyFun ''about'']" and chk = no_warning
        and hk = hooks_loop_killed and name = "''TaskUser''" and s = ?s
        and g = PyNone and self = sample_user and force = False and env = PyNone]
      g k
    by blast
  have c: "c = TaskUser_class"
    using b by (simp add: TaskUser_class_built)
  have u: "class_lookup User_class ''tasks'' = Some (PyList [])"
    by (simp add: User_class_def User_body_def)
  show ?thesis
    using l i hooks_loop_killed_keep_tasks TaskUser_lives u
    by (simp add: c TaskUser_class_built)
qed

end
